theory Spec2Isabelle
  imports Main "HOL-Library.Sublist"
begin

section \<open>Entity model (blog/models.py)\<close>

text \<open>
  Every model extends the publishable base (\<open>is_published\<close>, \<open>created_at\<close>). A row is a
  record keyed by its primary key; a foreign key is the primary key of the row it points
  to, and a nullable foreign key is an \<open>option\<close>. Timestamps are integers. The image
  and the likes of a post play no part in the operations modelled below and are left out.
\<close>

record category =
  category_pk :: nat
  category_is_published :: bool
  category_title :: string
  category_slug :: string

record post =
  post_pk :: nat
  post_is_published :: bool
  post_title :: string
  post_text :: string
  pub_date :: int
  post_author :: nat
  post_location :: "nat option"
  post_category :: "nat option"

record comment =
  comment_pk :: nat
  comment_is_published :: bool
  comment_created_at :: int
  comment_text :: string
  comment_post :: nat
  comment_author :: nat

record user =
  user_pk :: nat
  username :: string
  first_name :: string
  last_name :: string
  user_email :: string
  is_staff :: bool

text \<open>The relational store: one table per model, each a list of rows.\<close>

record db =
  db_posts :: "post list"
  db_categories :: "category list"
  db_comments :: "comment list"
  db_users :: "user list"

text \<open>
  A post as a query hands it out: the row, and the \<open>comment_count\<close> annotation when
  the query carries one.
\<close>

record post_row =
  row_post :: post
  comment_count :: "nat option"

section \<open>Query primitives of the object-relational mapper\<close>

text \<open>
  A query set is modelled by the list of rows it evaluates to on the store at hand.
  \<open>first\<close> is \<open>QuerySet.first()\<close>: the first row, or \<open>None\<close>.
\<close>

definition first :: "'a list \<Rightarrow> 'a option" where
  "first xs = (case xs of [] \<Rightarrow> None | x # _ \<Rightarrow> Some x)"

text \<open>\<open>order_by('-pub_date')\<close>: descending publication date (a stable sort).\<close>

definition order_by_pub_date_desc :: "post_row list \<Rightarrow> post_row list" where
  "order_by_pub_date_desc rows = sort_key (\<lambda>r. - pub_date (row_post r)) rows"

text \<open>
  \<open>Post.objects.all()\<close>: every post, in the default ordering of the model
  (\<open>Meta.ordering = ['-pub_date']\<close>), with no annotation.
\<close>

definition objects_all :: "db \<Rightarrow> post_row list" where
  "objects_all d =
     order_by_pub_date_desc (map (\<lambda>p. \<lparr>row_post = p, comment_count = None\<rparr>) (db_posts d))"

text \<open>
  The lookup \<open>category__is_published=True\<close> joins the post with its category row: a
  post whose foreign key is null, or names no row, has nothing to join with and does not
  match.
\<close>

definition category_of :: "db \<Rightarrow> post \<Rightarrow> category option" where
  "category_of d p =
     (case post_category p of
        None \<Rightarrow> None
      | Some cid \<Rightarrow> find (\<lambda>c. category_pk c = cid) (db_categories d))"

definition category__is_published :: "db \<Rightarrow> post \<Rightarrow> bool" where
  "category__is_published d p =
     (case category_of d p of None \<Rightarrow> False | Some c \<Rightarrow> category_is_published c)"

text \<open>\<open>Count('comments')\<close>: the comments whose \<open>comment_post\<close> is the post.\<close>

definition comments_of :: "db \<Rightarrow> post \<Rightarrow> comment list" where
  "comments_of d p = filter (\<lambda>c. comment_post c = post_pk p) (db_comments d)"

definition annotate_comment_count :: "db \<Rightarrow> post_row list \<Rightarrow> post_row list" where
  "annotate_comment_count d rows =
     map (\<lambda>r. r\<lparr>comment_count := Some (length (comments_of d (row_post r)))\<rparr>) rows"

section \<open>blog/service.py\<close>

subsection \<open>get_filtered_posts\<close>

text \<open>
  \<open>posts\<close> is \<open>None\<close>, or a query set. \<open>posts or Post.objects.all()\<close> takes the
  second operand when the first is falsy: \<open>None\<close>, and also a query set with no rows.
  \<open>time_now\<close> is the value of \<open>now()\<close>, read once.
\<close>

definition posts_or_all :: "db \<Rightarrow> post_row list option \<Rightarrow> post_row list" where
  "posts_or_all d posts =
     (case posts of
        None \<Rightarrow> objects_all d
      | Some rows \<Rightarrow> if rows = [] then objects_all d else rows)"

definition visibility_filter :: "db \<Rightarrow> int \<Rightarrow> post_row list \<Rightarrow> post_row list" where
  "visibility_filter d time_now rows =
     filter (\<lambda>r. pub_date (row_post r) \<le> time_now
                \<and> post_is_published (row_post r)
                \<and> category__is_published d (row_post r)) rows"

definition get_filtered_posts ::
  "db \<Rightarrow> int \<Rightarrow> post_row list option \<Rightarrow> bool \<Rightarrow> bool \<Rightarrow> post_row list" where
  "get_filtered_posts d time_now posts apply_filter apply_annotation =
     (let posts1 = posts_or_all d posts;
          posts2 = (if apply_filter then visibility_filter d time_now posts1 else posts1);
          posts3 = (if apply_annotation then annotate_comment_count d posts2 else posts2)
      in order_by_pub_date_desc posts3)"

subsection \<open>paginate\<close>

text \<open>
  \<open>Paginator(queryset, items_per_page).get_page(number)\<close>, with the paginator's defaults
  \<open>orphans = 0\<close> and \<open>allow_empty_first_page = True\<close>. The page size is a count (the
  views pass the constant \<open>POSTS_LIMIT\<close> of blog/constants.py). \<open>number\<close> is what
  \<open>request.GET.get('page')\<close> returns: \<open>None\<close> or a string. \<open>to_int\<close> stands for
  the builtin \<open>int\<close> on strings, \<open>None\<close> where it raises \<open>ValueError\<close>.
\<close>

datatype paginator_error = PageNotAnInteger | EmptyPage | ZeroDivisionError

record 'a paginator =
  object_list :: "'a list"
  per_page :: nat

record 'a page =
  page_object_list :: "'a list"
  page_number :: int
  page_num_pages :: int

definition count :: "'a paginator \<Rightarrow> int" where
  "count p = int (length (object_list p))"

text \<open>\<open>ceil(max(1, count) / per_page)\<close>; dividing by a page size of zero raises.\<close>

definition num_pages :: "'a paginator \<Rightarrow> paginator_error + int" where
  "num_pages p =
     (if per_page p = 0 then Inl ZeroDivisionError
      else Inr (- ((- max 1 (count p)) div int (per_page p))))"

definition validate_number ::
  "(string \<Rightarrow> int option) \<Rightarrow> 'a paginator \<Rightarrow> string option \<Rightarrow> paginator_error + int" where
  "validate_number to_int p number =
     (case number of
        None \<Rightarrow> Inl PageNotAnInteger
      | Some s \<Rightarrow>
          (case to_int s of
             None \<Rightarrow> Inl PageNotAnInteger
           | Some n \<Rightarrow>
               if n < 1 then Inl EmptyPage
               else (case num_pages p of
                       Inl e \<Rightarrow> Inl e
                     | Inr np \<Rightarrow> if n > np then Inl EmptyPage else Inr n)))"

text \<open>
  \<open>Paginator.page(number)\<close> on an integer: it validates the number once more and cuts
  the slice \<open>object_list[bottom:top]\<close>.
\<close>

definition page_of :: "'a paginator \<Rightarrow> int \<Rightarrow> paginator_error + 'a page" where
  "page_of p n =
     (if n < 1 then Inl EmptyPage
      else (case num_pages p of
              Inl e \<Rightarrow> Inl e
            | Inr np \<Rightarrow>
                if n > np then Inl EmptyPage
                else (let bottom = (n - 1) * int (per_page p);
                          top = (if bottom + int (per_page p) \<ge> count p then count p
                                 else bottom + int (per_page p))
                      in Inr \<lparr>page_object_list =
                                 take (nat top - nat bottom) (drop (nat bottom) (object_list p)),
                               page_number = n,
                               page_num_pages = np\<rparr>)))"

definition get_page ::
  "(string \<Rightarrow> int option) \<Rightarrow> 'a paginator \<Rightarrow> string option \<Rightarrow> paginator_error + 'a page" where
  "get_page to_int p number =
     (case validate_number to_int p number of
        Inr n \<Rightarrow> page_of p n
      | Inl PageNotAnInteger \<Rightarrow> page_of p 1
      | Inl EmptyPage \<Rightarrow> (case num_pages p of Inl e \<Rightarrow> Inl e | Inr np \<Rightarrow> page_of p np)
      | Inl ZeroDivisionError \<Rightarrow> Inl ZeroDivisionError)"

definition has_next :: "'a page \<Rightarrow> bool" where
  "has_next pg = (page_number pg < page_num_pages pg)"

definition has_previous :: "'a page \<Rightarrow> bool" where
  "has_previous pg = (page_number pg > 1)"

section \<open>Requests and responses\<close>

text \<open>
  A query dictionary is the list of its key-value pairs; \<open>get\<close> returns the last value
  given for the key. An empty one is falsy.
\<close>

type_synonym querydict = "(string \<times> string) list"

definition querydict_get :: "querydict \<Rightarrow> string \<Rightarrow> string option" where
  "querydict_get q k =
     (case filter (\<lambda>kv. fst kv = k) q of [] \<Rightarrow> None | kvs \<Rightarrow> Some (snd (last kvs)))"

definition or_None :: "querydict \<Rightarrow> querydict option" where
  "or_None q = (if q = [] then None else Some q)"

datatype http_method = GET | POST

datatype requester = AnonymousUser | LoggedIn user

record request =
  request_user :: requester
  request_method :: http_method
  request_path :: string
  request_GET :: querydict
  request_POST :: querydict

definition is_authenticated :: "requester \<Rightarrow> bool" where
  "is_authenticated r = (case r of AnonymousUser \<Rightarrow> False | LoggedIn _ \<Rightarrow> True)"

text \<open>
  \<open>request.user == u\<close> for a stored user \<open>u\<close> with primary key \<open>uid\<close>: model instances are
  equal when their primary keys are; the anonymous user equals no stored user.
\<close>

definition user_eq :: "requester \<Rightarrow> nat \<Rightarrow> bool" where
  "user_eq r uid = (case r of AnonymousUser \<Rightarrow> False | LoggedIn u \<Rightarrow> user_pk u = uid)"

definition paginate ::
  "(string \<Rightarrow> int option) \<Rightarrow> 'a list \<Rightarrow> request \<Rightarrow> nat \<Rightarrow> paginator_error + 'a page" where
  "paginate to_int queryset req items_per_page =
     get_page to_int \<lparr>object_list = queryset, per_page = items_per_page\<rparr>
       (querydict_get (request_GET req) ''page'')"

text \<open>
  A form as the template receives it: the submitted data when the form is bound, and
  the field-level messages of its validation.
\<close>

record form =
  form_data :: "querydict option"
  form_errors :: "(string \<times> string) list"

text \<open>
  The field validation of a model form class and the construction of the instance from
  the cleaned data belong to the form framework; both are parameters.
\<close>

record 'i form_class =
  field_errors :: "db \<Rightarrow> 'i \<Rightarrow> querydict \<Rightarrow> (string \<times> string) list"
  construct_instance :: "querydict \<Rightarrow> 'i \<Rightarrow> 'i"

definition make_form :: "'i form_class \<Rightarrow> db \<Rightarrow> querydict option \<Rightarrow> 'i \<Rightarrow> form" where
  "make_form fc d data inst =
     \<lparr>form_data = data,
      form_errors = (case data of None \<Rightarrow> [] | Some q \<Rightarrow> field_errors fc d inst q)\<rparr>"

definition is_valid :: "form \<Rightarrow> bool" where
  "is_valid f = (form_data f \<noteq> None \<and> form_errors f = [])"

datatype redirect_target =
    To_post_detail nat
  | To_index
  | To_profile string
  | To_login string

datatype "context" =
    Page_context "post_row page"
  | Profile_context user "post_row page"
  | Category_context category "post_row page"
  | Form_context form
  | Comment_form_context form comment
  | Comment_context comment

text \<open>An exception that no handler catches ends the request with the server-error page.\<close>

datatype unhandled = AttributeError | Paginator_raised paginator_error

datatype response =
    Redirect redirect_target
  | Render string "context"
  | Http404
  | Server_error unhandled

section \<open>Store operations\<close>

text \<open>
  \<open>get_object_or_404\<close> returns the first row that matches and raises \<open>Http404\<close> when
  there is none; \<open>None\<close> is the raised exception.
\<close>

definition get_object_or_404 :: "'a list \<Rightarrow> ('a \<Rightarrow> bool) \<Rightarrow> 'a option" where
  "get_object_or_404 rows matches = find matches rows"

text \<open>
  Deleting a post cascades to its comments (\<open>on_delete=CASCADE\<close> on \<open>comment_post\<close>).
  Saving an instance that has a primary key rewrites its row.
\<close>

definition post_delete :: "db \<Rightarrow> post \<Rightarrow> db" where
  "post_delete d p =
     d\<lparr>db_posts := filter (\<lambda>q. post_pk q \<noteq> post_pk p) (db_posts d),
       db_comments := filter (\<lambda>c. comment_post c \<noteq> post_pk p) (db_comments d)\<rparr>"

definition comment_delete :: "db \<Rightarrow> comment \<Rightarrow> db" where
  "comment_delete d c =
     d\<lparr>db_comments := filter (\<lambda>x. comment_pk x \<noteq> comment_pk c) (db_comments d)\<rparr>"

definition post_save :: "db \<Rightarrow> post \<Rightarrow> db" where
  "post_save d p =
     d\<lparr>db_posts := map (\<lambda>q. if post_pk q = post_pk p then p else q) (db_posts d)\<rparr>"

definition comment_save :: "db \<Rightarrow> comment \<Rightarrow> db" where
  "comment_save d c =
     d\<lparr>db_comments := map (\<lambda>x. if comment_pk x = comment_pk c then c else x) (db_comments d)\<rparr>"

definition user_save :: "db \<Rightarrow> user \<Rightarrow> db" where
  "user_save d u =
     d\<lparr>db_users := map (\<lambda>x. if user_pk x = user_pk u then u else x) (db_users d)\<rparr>"

text \<open>
  \<open>Post.Meta.default_related_name = '%(class)ss'\<close> names the reverse accessor that the
  foreign keys of \<open>Post\<close> put on the user and on the category: the class name in lower
  case followed by \<open>s\<close>. Under that name the row hands out the posts that point to it,
  in the default ordering. Neither model has an attribute of another name for them, and
  reading one raises \<open>AttributeError\<close>.
\<close>

definition default_related_name :: string where
  "default_related_name = ''post'' @ ''s''"

definition user_related_posts :: "db \<Rightarrow> user \<Rightarrow> string \<Rightarrow> unhandled + post_row list" where
  "user_related_posts d u attr =
     (if attr = default_related_name
      then Inr (filter (\<lambda>r. post_author (row_post r) = user_pk u) (objects_all d))
      else Inl AttributeError)"


text \<open>
  The model forms write the fields they list and no other: \<open>PostCreateForm\<close> excludes
  the author, \<open>CommentForm\<close> has the text only, \<open>ProfileEditForm\<close> has the user name,
  the two names and the email address.
\<close>

definition post_form_save :: "post form_class \<Rightarrow> db \<Rightarrow> querydict \<Rightarrow> post \<Rightarrow> post \<times> db" where
  "post_form_save fc d q p =
     (let p' = (construct_instance fc q p)\<lparr>post_pk := post_pk p, post_author := post_author p\<rparr>
      in (p', post_save d p'))"

definition comment_form_save ::
  "comment form_class \<Rightarrow> db \<Rightarrow> querydict \<Rightarrow> comment \<Rightarrow> comment \<times> db" where
  "comment_form_save fc d q c =
     (let c' = c\<lparr>comment_text := comment_text (construct_instance fc q c)\<rparr>
      in (c', comment_save d c'))"

definition profile_form_save :: "user form_class \<Rightarrow> db \<Rightarrow> querydict \<Rightarrow> user \<Rightarrow> user \<times> db" where
  "profile_form_save fc d q u =
     (let v = construct_instance fc q u;
          u' = u\<lparr>username := username v, first_name := first_name v,
                 last_name := last_name v, user_email := user_email v\<rparr>
      in (u', user_save d u'))"

section \<open>blog/mixins.py and blog/views.py\<close>

text \<open>
  A view takes the store and the request and returns the response and the store it
  leaves. \<open>login_required\<close> sends a requester who is not authenticated to the login
  page, with the requested path to come back to.
\<close>

definition login_required ::
  "(db \<Rightarrow> request \<Rightarrow> response \<times> db) \<Rightarrow> db \<Rightarrow> request \<Rightarrow> response \<times> db" where
  "login_required view_func d req =
     (if is_authenticated (request_user req) then view_func d req
      else (Redirect (To_login (request_path req)), d))"

subsection \<open>Listing views\<close>

definition render_page :: "paginator_error + post_row page \<Rightarrow> string \<Rightarrow>
    (post_row page \<Rightarrow> context) \<Rightarrow> response" where
  "render_page page_obj template ctx =
     (case page_obj of
        Inl e \<Rightarrow> Server_error (Paginator_raised e)
      | Inr pg \<Rightarrow> Render template (ctx pg))"

text \<open>
  \<open>profile\<close> reads \<open>user.post\<close> and \<open>category_posts\<close> reads \<open>category.post\<close>; each
  read is modelled where the source makes it, so an exception it raises ends the view.
\<close>

definition profile ::
  "(string \<Rightarrow> int option) \<Rightarrow> nat \<Rightarrow> int \<Rightarrow> db \<Rightarrow> request \<Rightarrow> string \<Rightarrow> response" where
  "profile to_int POSTS_LIMIT time_now d req uname =
     (case get_object_or_404 (db_users d) (\<lambda>u. username u = uname) of
        None \<Rightarrow> Http404
      | Some u \<Rightarrow>
          (case user_related_posts d u ''post'' of
             Inl e \<Rightarrow> Server_error e
           | Inr post \<Rightarrow>
               if \<not> user_eq (request_user req) (user_pk u)
                  \<or> \<not> is_authenticated (request_user req)
               then (case user_related_posts d u ''post'' of
                       Inl e \<Rightarrow> Server_error e
                     | Inr posts \<Rightarrow>
                         render_page
                           (paginate to_int (get_filtered_posts d time_now (Some posts) True True)
                              req POSTS_LIMIT)
                           ''blog/profile.html'' (Profile_context u))
               else render_page (paginate to_int post req POSTS_LIMIT)
                      ''blog/profile.html'' (Profile_context u)))"


definition index ::
  "(string \<Rightarrow> int option) \<Rightarrow> nat \<Rightarrow> int \<Rightarrow> db \<Rightarrow> request \<Rightarrow> response" where
  "index to_int POSTS_LIMIT time_now d req =
     (let posts = get_filtered_posts d time_now None True True
      in render_page (paginate to_int posts req POSTS_LIMIT) ''blog/index.html'' Page_context)"

subsection \<open>PostDetailView.get_object\<close>

text \<open>
  For an authenticated viewer \<open>posts\<close> is rebound to the result of \<open>first()\<close>; when that
  is \<open>None\<close>, it is \<open>None\<close> that reaches \<open>get_filtered_posts\<close>. \<open>None\<close> as the result is
  the raised \<open>Http404\<close>.
\<close>

definition get_object :: "int \<Rightarrow> db \<Rightarrow> request \<Rightarrow> nat \<Rightarrow> post_row option" where
  "get_object time_now d req post_id =
     (let posts = objects_all d;
          by_id = (\<lambda>qs. get_object_or_404 qs (\<lambda>r. post_pk (row_post r) = post_id))
      in case request_user req of
           LoggedIn u \<Rightarrow>
             (case first (filter (\<lambda>r. post_pk (row_post r) = post_id
                                       \<and> post_author (row_post r) = user_pk u) posts) of
                Some own \<Rightarrow> Some own
              | None \<Rightarrow> by_id (get_filtered_posts d time_now None True False))
         | AnonymousUser \<Rightarrow> by_id (get_filtered_posts d time_now (Some posts) True False))"

subsection \<open>Post mutation views\<close>

text \<open>
  \<open>PostUpdateView\<close>: the dispatch of \<open>LoginRequiredMixin\<close>, then that of
  \<open>AuthorRequiredMixin\<close>, then the update view itself, which shows the form on a read
  and validates and saves it on a submission.
\<close>

definition UpdateView_dispatch ::
  "post form_class \<Rightarrow> db \<Rightarrow> request \<Rightarrow> post \<Rightarrow> response \<times> db" where
  "UpdateView_dispatch fc d req p =
     (case request_method req of
        GET \<Rightarrow> (Render ''blog/create.html'' (Form_context (make_form fc d None p)), d)
      | POST \<Rightarrow>
          (let form = make_form fc d (Some (request_POST req)) p
           in if is_valid form
              then (case post_form_save fc d (request_POST req) p of
                      (p', d') \<Rightarrow> (Redirect (To_post_detail (post_pk p')), d'))
              else (Render ''blog/create.html'' (Form_context form), d)))"

definition AuthorRequiredMixin_dispatch ::
  "post form_class \<Rightarrow> db \<Rightarrow> request \<Rightarrow> nat \<Rightarrow> response \<times> db" where
  "AuthorRequiredMixin_dispatch fc d req pk =
     (case get_object_or_404 (db_posts d) (\<lambda>p. post_pk p = pk) of
        None \<Rightarrow> (Http404, d)
      | Some p \<Rightarrow>
          if \<not> user_eq (request_user req) (post_author p)
          then (Redirect (To_post_detail (post_pk p)), d)
          else UpdateView_dispatch fc d req p)"

definition PostUpdateView ::
  "post form_class \<Rightarrow> db \<Rightarrow> request \<Rightarrow> nat \<Rightarrow> response \<times> db" where
  "PostUpdateView fc d req pk =
     (if \<not> is_authenticated (request_user req)
      then (Redirect (To_login (request_path req)), d)
      else AuthorRequiredMixin_dispatch fc d req pk)"

definition delete_post_view ::
  "post form_class \<Rightarrow> nat \<Rightarrow> db \<Rightarrow> request \<Rightarrow> response \<times> db" where
  "delete_post_view fc post_id d req =
     (case get_object_or_404 (db_posts d) (\<lambda>p. post_pk p = post_id) of
        None \<Rightarrow> (Http404, d)
      | Some p \<Rightarrow>
          if \<not> user_eq (request_user req) (post_author p)
          then (Redirect (To_post_detail (post_pk p)), d)
          else if request_method req = POST
          then (Redirect To_index, post_delete d p)
          else (Render ''blog/create.html'' (Form_context (make_form fc d None p)), d))"

definition delete_post ::
  "post form_class \<Rightarrow> db \<Rightarrow> request \<Rightarrow> nat \<Rightarrow> response \<times> db" where
  "delete_post fc d req post_id = login_required (delete_post_view fc post_id) d req"

subsection \<open>Comment and profile views\<close>

text \<open>\<open>edit_comment\<close> carries no decorator; it serves the edit and the delete route.\<close>

definition edit_comment ::
  "comment form_class \<Rightarrow> db \<Rightarrow> request \<Rightarrow> nat \<Rightarrow> nat \<Rightarrow> response \<times> db" where
  "edit_comment fc d req post_id comment_id =
     (case get_object_or_404 (db_posts d) (\<lambda>p. post_pk p = post_id) of
        None \<Rightarrow> (Http404, d)
      | Some p \<Rightarrow>
          (case get_object_or_404 (db_comments d)
                  (\<lambda>c. comment_pk c = comment_id \<and> comment_post c = post_pk p) of
             None \<Rightarrow> (Http404, d)
           | Some c \<Rightarrow>
               if \<not> user_eq (request_user req) (comment_author c)
               then (Redirect (To_post_detail (post_pk p)), d)
               else if sublist ''/delete_comment/'' (request_path req)
               then (if request_method req = POST
                     then (Redirect (To_post_detail (post_pk p)), comment_delete d c)
                     else (Render ''blog/comment.html'' (Comment_context c), d))
               else (let form = make_form fc d (or_None (request_POST req)) c
                     in if is_valid form
                        then (Redirect (To_post_detail (post_pk p)),
                              snd (comment_form_save fc d (request_POST req) c))
                        else (Render ''blog/comment.html'' (Comment_form_context form c), d))))"

text \<open>
  In \<open>edit_profile\<close> the instance of the form is \<open>request.user\<close>. The decorator lets no
  anonymous requester reach the body; the case of the body for one repeats the
  decorator's answer.
\<close>

definition edit_profile_view :: "user form_class \<Rightarrow> db \<Rightarrow> request \<Rightarrow> response \<times> db" where
  "edit_profile_view fc d req =
     (case request_user req of
        AnonymousUser \<Rightarrow> (Redirect (To_login (request_path req)), d)
      | LoggedIn u \<Rightarrow>
          (let form = make_form fc d (or_None (request_POST req)) u
           in if is_valid form
              then (case profile_form_save fc d (request_POST req) u of
                      (u', d') \<Rightarrow> (Redirect (To_profile (username u')), d'))
              else (Render ''blog/user.html'' (Form_context (make_form fc d None u)), d)))"

definition edit_profile :: "user form_class \<Rightarrow> db \<Rightarrow> request \<Rightarrow> response \<times> db" where
  "edit_profile fc d req = login_required (edit_profile_view fc) d req"

section \<open>The visibility predicate in the words of the specification\<close>

text \<open>
  The specification's reading of the filter, in which a post without a category passes
  the category check. It is compared with \<open>visibility_filter\<close> below and is used by
  no definition of the program.
\<close>

definition spec_visible :: "db \<Rightarrow> int \<Rightarrow> post \<Rightarrow> bool" where
  "spec_visible d time_now p =
     (pub_date p \<le> time_now \<and> post_is_published p
      \<and> (case category_of d p of None \<Rightarrow> True | Some c \<Rightarrow> category_is_published c))"

section \<open>A small blog\<close>

text \<open>
  Three users (Carol is staff), two published categories (no post is filed under food),
  three posts by Alice (one without a category, one unpublished) and two comments on the
  first post, one of them unpublished. Bob has no post.
\<close>

definition alice :: user where
  "alice = \<lparr>user_pk = 1, username = ''alice'', first_name = ''Alice'', last_name = ''A'',
            user_email = ''alice@example.org'', is_staff = False\<rparr>"

definition bob :: user where
  "bob = \<lparr>user_pk = 2, username = ''bob'', first_name = ''Bob'', last_name = ''B'',
          user_email = ''bob@example.org'', is_staff = False\<rparr>"

definition carol :: user where
  "carol = \<lparr>user_pk = 3, username = ''carol'', first_name = ''Carol'', last_name = ''C'',
            user_email = ''carol@example.org'', is_staff = True\<rparr>"

definition travel :: category where
  "travel = \<lparr>category_pk = 1, category_is_published = True, category_title = ''Travel'',
             category_slug = ''travel''\<rparr>"

definition food :: category where
  "food = \<lparr>category_pk = 2, category_is_published = True, category_title = ''Food'',
           category_slug = ''food''\<rparr>"

definition post1 :: post where
  "post1 = \<lparr>post_pk = 1, post_is_published = True, post_title = ''Rome'', post_text = ''t1'',
            pub_date = 5, post_author = 1, post_location = None, post_category = Some 1\<rparr>"

definition post2 :: post where
  "post2 = \<lparr>post_pk = 2, post_is_published = True, post_title = ''Note'', post_text = ''t2'',
            pub_date = 7, post_author = 1, post_location = None, post_category = None\<rparr>"

definition post3 :: post where
  "post3 = \<lparr>post_pk = 3, post_is_published = False, post_title = ''Draft'', post_text = ''t3'',
            pub_date = 3, post_author = 1, post_location = None, post_category = Some 1\<rparr>"

definition comment1 :: comment where
  "comment1 = \<lparr>comment_pk = 1, comment_is_published = True, comment_created_at = 6,
               comment_text = ''nice'', comment_post = 1, comment_author = 2\<rparr>"

definition comment2 :: comment where
  "comment2 = \<lparr>comment_pk = 2, comment_is_published = False, comment_created_at = 8,
               comment_text = ''hidden'', comment_post = 1, comment_author = 1\<rparr>"

definition blog :: db where
  "blog = \<lparr>db_posts = [post1, post2, post3], db_categories = [travel, food],
           db_comments = [comment1, comment2], db_users = [alice, bob, carol]\<rparr>"

lemmas blog_defs = alice_def bob_def carol_def travel_def food_def post1_def post2_def
  post3_def comment1_def comment2_def blog_def

lemmas query_defs = get_filtered_posts_def posts_or_all_def objects_all_def
  order_by_pub_date_desc_def visibility_filter_def category__is_published_def category_of_def
  annotate_comment_count_def comments_of_def

text \<open>
  A stand-in for \<open>int\<close> on plain decimal text (an optional sign, then digits), where it
  agrees with the builtin; the examples pass it as \<open>to_int\<close>.
\<close>

definition decimal_digits :: "string \<Rightarrow> int option" where
  "decimal_digits ds =
     (if ds \<noteq> [] \<and> list_all (\<lambda>c. c \<in> set ''0123456789'') ds
      then Some (foldl (\<lambda>a c. 10 * a + (of_char c - 48 :: int)) 0 ds) else None)"

definition decimal_int :: "string \<Rightarrow> int option" where
  "decimal_int s =
     (case s of
        CHR ''-'' # ds \<Rightarrow> map_option uminus (decimal_digits ds)
      | CHR ''+'' # ds \<Rightarrow> decimal_digits ds
      | _ \<Rightarrow> decimal_digits s)"

definition anonymous_get :: "string \<Rightarrow> querydict \<Rightarrow> request" where
  "anonymous_get path query =
     \<lparr>request_user = AnonymousUser, request_method = GET, request_path = path,
      request_GET = query, request_POST = []\<rparr>"

definition user_request :: "user \<Rightarrow> http_method \<Rightarrow> string \<Rightarrow> querydict \<Rightarrow> request" where
  "user_request u m path data =
     \<lparr>request_user = LoggedIn u, request_method = m, request_path = path,
      request_GET = [], request_POST = data\<rparr>"

lemmas page_defs = paginate_def get_page_def validate_number_def page_of_def num_pages_def
  count_def querydict_get_def render_page_def decimal_int_def decimal_digits_def

lemmas request_defs = anonymous_get_def user_request_def is_authenticated_def user_eq_def
  get_object_or_404_def login_required_def

section \<open>Auxiliary notions for pagination\<close>

text \<open>
  The number of pages, and the page number that \<open>get_page\<close> settles on, written out as
  closed forms; the lemmas below show that \<open>num_pages\<close> and \<open>get_page\<close> compute them.
\<close>

definition ceil_pages :: "nat \<Rightarrow> nat \<Rightarrow> int" where
  "ceil_pages N S = - ((- max 1 (int N)) div int S)"

definition resolved_number :: "(string \<Rightarrow> int option) \<Rightarrow> string option \<Rightarrow> int \<Rightarrow> int" where
  "resolved_number to_int number np =
     (case number of
        None \<Rightarrow> 1
      | Some s \<Rightarrow> (case to_int s of
                     None \<Rightarrow> 1
                   | Some n \<Rightarrow> if 1 \<le> n \<and> n \<le> np then n else np))"

text \<open>
  The specification's "nearest boundary page" for a page number \<open>n\<close> among \<open>np\<close> pages:
  the first page below the range, the last page above it. It is compared with
  \<open>get_page\<close> below and is used by no definition of the program.
\<close>

definition nearest_boundary_page :: "int \<Rightarrow> int \<Rightarrow> int" where
  "nearest_boundary_page n np = (if n < 1 then 1 else if n > np then np else n)"

definition five_items :: "nat list" where
  "five_items = [1, 2, 3, 4, 5]"

section \<open>Forms and requests of the examples\<close>

text \<open>
  Stand-ins for the three model forms, passed as the form classes in the examples: a
  field that is required is in error when it is missing or empty, and the instance takes
  the values submitted.
\<close>

definition required :: "querydict \<Rightarrow> string \<Rightarrow> (string \<times> string) list" where
  "required q field =
     (case querydict_get q field of
        None \<Rightarrow> [(field, ''This field is required.'')]
      | Some v \<Rightarrow> if v = [] then [(field, ''This field is required.'')] else [])"

definition field_or :: "querydict \<Rightarrow> string \<Rightarrow> string \<Rightarrow> string" where
  "field_or q field old = (case querydict_get q field of None \<Rightarrow> old | Some v \<Rightarrow> v)"

definition comment_form :: "comment form_class" where
  "comment_form =
     \<lparr>field_errors = (\<lambda>d c q. required q ''text''),
      construct_instance = (\<lambda>q c. c\<lparr>comment_text := field_or q ''text'' (comment_text c)\<rparr>)\<rparr>"

definition post_form :: "post form_class" where
  "post_form =
     \<lparr>field_errors = (\<lambda>d p q. required q ''title'' @ required q ''text''),
      construct_instance = (\<lambda>q p. p\<lparr>post_title := field_or q ''title'' (post_title p),
                                      post_text := field_or q ''text'' (post_text p)\<rparr>)\<rparr>"

definition profile_form :: "user form_class" where
  "profile_form =
     \<lparr>field_errors = (\<lambda>d u q. required q ''username''),
      construct_instance = (\<lambda>q u. u\<lparr>username := field_or q ''username'' (username u),
                                      first_name := field_or q ''first_name'' (first_name u)\<rparr>)\<rparr>"

definition anonymous_post :: "string \<Rightarrow> querydict \<Rightarrow> request" where
  "anonymous_post path data =
     \<lparr>request_user = AnonymousUser, request_method = POST, request_path = path,
      request_GET = [], request_POST = data\<rparr>"

lemmas form_defs = sublist_code prefix_code required_def field_or_def comment_form_def post_form_def profile_form_def
  make_form_def is_valid_def or_None_def querydict_get_def anonymous_post_def

lemmas view_defs = PostUpdateView_def AuthorRequiredMixin_dispatch_def UpdateView_dispatch_def
  delete_post_def delete_post_view_def edit_comment_def edit_profile_def edit_profile_view_def
  post_form_save_def comment_form_save_def profile_form_save_def post_save_def comment_save_def
  user_save_def post_delete_def comment_delete_def Let_def

section \<open>Properties of get_filtered_posts\<close>

lemma order_by_pub_date_desc_sorted:
  "sorted_wrt (\<lambda>a b. pub_date (row_post a) \<ge> pub_date (row_post b))
     (order_by_pub_date_desc rows)"
proof -
  have "sorted (map (\<lambda>r. - pub_date (row_post r)) (order_by_pub_date_desc rows))"
    unfolding order_by_pub_date_desc_def by (rule sorted_sort_key)
  then show ?thesis by (simp add: sorted_map)
qed

lemma set_order_by_pub_date_desc [simp]:
  "set (order_by_pub_date_desc rows) = set rows"
  by (simp add: order_by_pub_date_desc_def)

text \<open>
  C10. Whatever collection is passed and whatever the two switches are, the list that
  \<open>get_filtered_posts\<close> returns is in descending order of \<open>pub_date\<close>: each row's date
  is at least that of every row after it.
\<close>

theorem get_filtered_posts_ordered:
  "sorted_wrt (\<lambda>a b. pub_date (row_post a) \<ge> pub_date (row_post b))
     (get_filtered_posts d time_now posts apply_filter apply_annotation)"
  unfolding get_filtered_posts_def Let_def by (rule order_by_pub_date_desc_sorted)

lemma row_post_annotate_comment_count [simp]:
  "row_post ` set (annotate_comment_count d rows) = row_post ` set rows"
  by (simp add: annotate_comment_count_def image_image)

lemma category__is_published_iff:
  "category__is_published d p \<longleftrightarrow> (\<exists>c. category_of d p = Some c \<and> category_is_published c)"
  by (simp add: category__is_published_def split: option.splits)

text \<open>
  C1, as the code has it. With the filter switched on, a post of the collection that is
  filtered (the one passed, or every post when that one is empty or absent) is retained
  if and only if its \<open>pub_date\<close> is not after \<open>now\<close>, it is published, and it has a
  category that is published. A post without a category is not retained.
\<close>

theorem visibility_filter_retains:
  "p \<in> row_post ` set (get_filtered_posts d time_now posts True apply_annotation) \<longleftrightarrow>
     p \<in> row_post ` set (posts_or_all d posts) \<and> pub_date p \<le> time_now \<and> post_is_published p
     \<and> (\<exists>c. category_of d p = Some c \<and> category_is_published c)"
  by (auto simp: get_filtered_posts_def Let_def visibility_filter_def category__is_published_iff)

theorem visibility_filter_retains_witness:
  "post1 \<in> row_post ` set (get_filtered_posts blog 10 None True True)
   \<and> post3 \<notin> row_post ` set (get_filtered_posts blog 10 None True True)"
  using visibility_filter_retains [of post1 blog 10 None True]
    visibility_filter_retains [of post3 blog 10 None True]
  by (simp add: query_defs blog_defs)

text \<open>
  C1 as the specification states it fails: the second post of the small blog is
  published, dated before \<open>now\<close> and has no category, so the specification's predicate
  holds of it, and the filter drops it.
\<close>

theorem null_category_counterexample:
  "post2 \<in> row_post ` set (posts_or_all blog None) \<and> spec_visible blog 10 post2
   \<and> post2 \<notin> row_post ` set (get_filtered_posts blog 10 None True True)"
  by (simp add: query_defs blog_defs spec_visible_def)

text \<open>
  C9. With the annotation switched on, the \<open>comment_count\<close> of every row returned is the
  number of comments of the store whose \<open>comment_post\<close> is that post. The publication flag
  of a comment plays no part. Primary keys of comments are unique.
\<close>

theorem comment_count_exact:
  assumes "distinct (map comment_pk (db_comments d))"
    and "r \<in> set (get_filtered_posts d time_now posts apply_filter True)"
  shows "comment_count r =
           Some (card {c \<in> set (db_comments d). comment_post c = post_pk (row_post r)})"
proof -
  have "distinct (db_comments d)"
    using assms(1) by (rule distinct_map [THEN iffD1, THEN conjunct1])
  then have "length (comments_of d (row_post r)) =
      card {c \<in> set (db_comments d). comment_post c = post_pk (row_post r)}"
    unfolding comments_of_def by (metis distinct_card distinct_filter set_filter)
  moreover have "comment_count r = Some (length (comments_of d (row_post r)))"
    using assms(2) by (auto simp: get_filtered_posts_def Let_def annotate_comment_count_def)
  ultimately show ?thesis by simp
qed

theorem comment_count_exact_witness:
  "distinct (map comment_pk (db_comments blog))
   \<and> \<lparr>row_post = post1, comment_count = Some 2\<rparr> \<in> set (get_filtered_posts blog 10 None True True)
   \<and> card {c \<in> set (db_comments blog). comment_post c = 1} = 2
   \<and> \<not> comment_is_published comment2 \<and> comment2 \<in> set (db_comments blog)"
proof -
  have a: "distinct (map comment_pk (db_comments blog))" by (simp add: blog_defs)
  have b: "\<lparr>row_post = post1, comment_count = Some 2\<rparr>
             \<in> set (get_filtered_posts blog 10 None True True)"
    by (simp add: query_defs blog_defs)
  have "post_pk post1 = 1" by (simp add: post1_def)
  with comment_count_exact [OF a b]
  have "card {c \<in> set (db_comments blog). comment_post c = 1} = 2"
    by simp
  with a b show ?thesis by (simp add: blog_defs)
qed




section \<open>Properties of the detail view\<close>

lemma first_filter: "first (filter P xs) = find P xs"
  by (induction xs) (auto simp: first_def)

lemma objects_all_rows:
  "set (objects_all d) = (\<lambda>p. \<lparr>row_post = p, comment_count = None\<rparr>) ` set (db_posts d)"
  by (simp add: objects_all_def)

lemma pk_unique:
  "distinct (map post_pk ps) \<Longrightarrow> p \<in> set ps \<Longrightarrow> q \<in> set ps \<Longrightarrow> post_pk p = post_pk q \<Longrightarrow> p = q"
  by (meson distinct_map inj_on_eq_iff)

lemma find_own_post:
  assumes "distinct (map post_pk (db_posts d))" "p \<in> set (db_posts d)"
    "post_pk p = post_id" "post_author p = uid"
  shows "find (\<lambda>r. post_pk (row_post r) = post_id \<and> post_author (row_post r) = uid)
           (objects_all d) = Some \<lparr>row_post = p, comment_count = None\<rparr>"
proof -
  let ?P = "\<lambda>r. post_pk (row_post r) = post_id \<and> post_author (row_post r) = uid"
  have "\<lparr>row_post = p, comment_count = None\<rparr> \<in> set (objects_all d)"
    using assms(2) by (simp add: objects_all_rows)
  then have "\<exists>x \<in> set (objects_all d). ?P x" using assms(3,4) by force
  then obtain x where x: "find ?P (objects_all d) = Some x"
    by (cases "find ?P (objects_all d)") (auto simp: find_None_iff)
  then have "x \<in> set (objects_all d)" "?P x"
    by (auto simp: find_Some_iff)
  then obtain q where q: "x = \<lparr>row_post = q, comment_count = None\<rparr>" "q \<in> set (db_posts d)"
    by (auto simp: objects_all_rows)
  with \<open>?P x\<close> assms have "q = p" by (auto intro: pk_unique)
  with x q show ?thesis by simp
qed

lemma find_no_own_post:
  assumes "\<not> (\<exists>p \<in> set (db_posts d). post_pk p = post_id \<and> post_author p = uid)"
  shows "find (\<lambda>r. post_pk (row_post r) = post_id \<and> post_author (row_post r) = uid)
           (objects_all d) = None"
  using assms by (auto simp: find_None_iff objects_all_rows)

lemma get_filtered_posts_all:
  "get_filtered_posts d t (Some (objects_all d)) f a = get_filtered_posts d t None f a"
  by (simp add: get_filtered_posts_def posts_or_all_def)

lemma get_object_anonymous:
  "request_user req = AnonymousUser \<Longrightarrow>
   get_object t d req post_id =
     get_object_or_404 (get_filtered_posts d t None True False)
       (\<lambda>r. post_pk (row_post r) = post_id)"
  by (simp add: get_object_def Let_def get_filtered_posts_all)

lemma get_object_logged_in:
  "request_user req = LoggedIn u \<Longrightarrow>
   get_object t d req post_id =
     (case find (\<lambda>r. post_pk (row_post r) = post_id \<and> post_author (row_post r) = user_pk u)
             (objects_all d) of
        Some own \<Rightarrow> Some own
      | None \<Rightarrow> get_object_or_404 (get_filtered_posts d t None True False)
                  (\<lambda>r. post_pk (row_post r) = post_id))"
  by (simp add: get_object_def Let_def first_filter)

lemma filtered_unpublished_absent:
  assumes "distinct (map post_pk (db_posts d))" "p \<in> set (db_posts d)"
    "post_pk p = post_id" "\<not> post_is_published p \<or> time_now < pub_date p"
  shows "get_object_or_404 (get_filtered_posts d time_now None True False)
           (\<lambda>r. post_pk (row_post r) = post_id) = None"
proof -
  have "\<not> post_pk (row_post r) = post_id"
    if "r \<in> set (get_filtered_posts d time_now None True False)" for r
  proof
    assume pk: "post_pk (row_post r) = post_id"
    from that have "row_post r \<in> set (db_posts d)"
      and vis: "post_is_published (row_post r) \<and> pub_date (row_post r) \<le> time_now"
      by (auto simp: get_filtered_posts_def Let_def visibility_filter_def posts_or_all_def
          objects_all_rows)
    with pk assms(1-3) have "row_post r = p" by (auto intro: pk_unique)
    with vis assms(4) show False by auto
  qed
  then show ?thesis by (auto simp: get_object_or_404_def find_None_iff)
qed

text \<open>
  C3. \<open>PostDetailView.get_object\<close>, primary keys of posts being unique. An authenticated
  viewer who is the author of the post with the requested identifier receives that post,
  whatever its publication flag, its date and its category. Every other viewer,
  anonymous or authenticated, receives what the lookup of the identifier among the
  filtered posts gives: not-found exactly when no filtered post has the identifier,
  and the same answer an anonymous viewer gets. In particular a post that is unpublished
  or dated in the future is not found by anybody but its author.
\<close>

theorem detail_view_resolution:
  assumes "distinct (map post_pk (db_posts d))"
  shows
    "(request_user req = LoggedIn u \<and> p \<in> set (db_posts d) \<and> post_pk p = post_id
        \<and> post_author p = user_pk u
      \<longrightarrow> get_object t d req post_id = Some \<lparr>row_post = p, comment_count = None\<rparr>)
     \<and> ((\<forall>v. request_user req = LoggedIn v \<longrightarrow>
            \<not> (\<exists>q \<in> set (db_posts d). post_pk q = post_id \<and> post_author q = user_pk v))
      \<longrightarrow> get_object t d req post_id =
            get_object_or_404 (get_filtered_posts d t None True False)
              (\<lambda>r. post_pk (row_post r) = post_id)
          \<and> get_object t d req post_id =
            get_object t d (req\<lparr>request_user := AnonymousUser\<rparr>) post_id
          \<and> (get_object t d req post_id = None \<longleftrightarrow>
               (\<forall>r \<in> set (get_filtered_posts d t None True False).
                  post_pk (row_post r) \<noteq> post_id))
          \<and> (p \<in> set (db_posts d) \<and> post_pk p = post_id
               \<and> (\<not> post_is_published p \<or> t < pub_date p)
              \<longrightarrow> get_object t d req post_id = None))"
proof (intro conjI impI)
  assume "request_user req = LoggedIn u \<and> p \<in> set (db_posts d) \<and> post_pk p = post_id
      \<and> post_author p = user_pk u"
  then show "get_object t d req post_id = Some \<lparr>row_post = p, comment_count = None\<rparr>"
    using find_own_post [OF assms, of p post_id "user_pk u"]
    by (simp add: get_object_logged_in)
next
  assume n: "\<forall>v. request_user req = LoggedIn v \<longrightarrow>
            \<not> (\<exists>q \<in> set (db_posts d). post_pk q = post_id \<and> post_author q = user_pk v)"
  show f: "get_object t d req post_id =
      get_object_or_404 (get_filtered_posts d t None True False)
        (\<lambda>r. post_pk (row_post r) = post_id)"
  proof (cases "request_user req")
    case AnonymousUser
    then show ?thesis by (rule get_object_anonymous)
  next
    case (LoggedIn v)
    with n have "find (\<lambda>r. post_pk (row_post r) = post_id \<and> post_author (row_post r) = user_pk v)
        (objects_all d) = None"
      by (intro find_no_own_post) blast
    with LoggedIn show ?thesis by (simp add: get_object_logged_in)
  qed
  show "get_object t d req post_id = get_object t d (req\<lparr>request_user := AnonymousUser\<rparr>) post_id"
    by (simp add: f get_object_anonymous)
  show "get_object t d req post_id = None \<longleftrightarrow>
      (\<forall>r \<in> set (get_filtered_posts d t None True False). post_pk (row_post r) \<noteq> post_id)"
    by (auto simp: f get_object_or_404_def find_None_iff)
  assume "p \<in> set (db_posts d) \<and> post_pk p = post_id \<and> (\<not> post_is_published p \<or> t < pub_date p)"
  then show "get_object t d req post_id = None"
    using filtered_unpublished_absent [OF assms, of p post_id t] by (simp add: f)
qed

theorem detail_view_resolution_witness:
  "distinct (map post_pk (db_posts blog))
   \<and> \<not> post_is_published post3
   \<and> get_object 10 blog (user_request alice GET ''/posts/3/'' []) 3 =
       Some \<lparr>row_post = post3, comment_count = None\<rparr>
   \<and> get_object 10 blog (user_request bob GET ''/posts/3/'' []) 3 = None
   \<and> get_object 10 blog
        ((user_request bob GET ''/posts/3/'' [])\<lparr>request_user := AnonymousUser\<rparr>) 3 = None"
proof -
  let ?a = "user_request alice GET ''/posts/3/'' []"
  let ?b = "user_request bob GET ''/posts/3/'' []"
  have dist: "distinct (map post_pk (db_posts blog))" by (simp add: blog_defs)
  have own: "request_user ?a = LoggedIn alice \<and> post3 \<in> set (db_posts blog) \<and> post_pk post3 = 3
      \<and> post_author post3 = user_pk alice"
    by (simp add: user_request_def blog_defs)
  have other: "\<forall>v. request_user ?b = LoggedIn v \<longrightarrow>
      \<not> (\<exists>q \<in> set (db_posts blog). post_pk q = 3 \<and> post_author q = user_pk v)"
    by (simp add: user_request_def blog_defs)
  have unpub: "post3 \<in> set (db_posts blog) \<and> post_pk post3 = 3
      \<and> (\<not> post_is_published post3 \<or> 10 < pub_date post3)"
    by (simp add: blog_defs)
  from detail_view_resolution [OF dist, of ?a alice post3 3 10] own
  have 1: "get_object 10 blog ?a 3 = Some \<lparr>row_post = post3, comment_count = None\<rparr>"
    by blast
  from detail_view_resolution [OF dist, of ?b bob post3 3 10] other unpub
  have 2: "get_object 10 blog ?b 3 = None"
    and 3: "get_object 10 blog ?b 3 = get_object 10 blog (?b\<lparr>request_user := AnonymousUser\<rparr>) 3"
    by blast+
  from dist 1 2 3 unpub show ?thesis by (simp add: post3_def)
qed

section \<open>Properties of paginate\<close>

lemma ceil_pages_bounds:
  assumes "0 < S"
  shows "1 \<le> ceil_pages N S"
    and "(ceil_pages N S - 1) * int S < max 1 (int N)"
    and "max 1 (int N) \<le> ceil_pages N S * int S"
proof -
  define M where "M = max 1 (int N)"
  define b where "b = int S"
  define q where "q = (- M) div b"
  have b: "0 < b" using assms by (simp add: b_def)
  have M: "1 \<le> M" by (simp add: M_def)
  have eq: "- M = b * q + (- M) mod b" by (simp add: q_def)
  have m: "0 \<le> (- M) mod b" "(- M) mod b < b" using b by simp_all
  have np: "ceil_pages N S = - q" by (simp add: ceil_pages_def q_def M_def b_def)
  have 1: "b * q \<le> - M" using eq m by linarith
  have 2: "- M < b * q + b" using eq m by linarith
  have "q < 0"
  proof (rule ccontr)
    assume "\<not> q < 0"
    then have "0 \<le> b * q" using b by simp
    with 1 M show False by linarith
  qed
  then show "1 \<le> ceil_pages N S" by (simp add: np)
  have "(- q - 1) * b = - (b * q + b)" by (simp add: algebra_simps)
  with 2 have "(- q - 1) * b < M" by linarith
  then show "(ceil_pages N S - 1) * int S < max 1 (int N)"
    by (simp only: np M_def b_def)
  have "- q * b = - (b * q)" by (simp add: algebra_simps)
  with 1 have "M \<le> - q * b" by linarith
  then show "max 1 (int N) \<le> ceil_pages N S * int S"
    by (simp only: np M_def b_def)
qed

lemma num_pages_eq:
  "0 < S \<Longrightarrow> num_pages \<lparr>object_list = xs, per_page = S\<rparr> = Inr (ceil_pages (length xs) S)"
  by (simp add: num_pages_def ceil_pages_def count_def)

lemma page_of_valid:
  assumes S: "0 < S" and k: "1 \<le> k" "k \<le> ceil_pages (length xs) S"
  shows "page_of \<lparr>object_list = xs, per_page = S\<rparr> k =
           Inr \<lparr>page_object_list = take S (drop (nat (k - 1) * S) xs),
                page_number = k, page_num_pages = ceil_pages (length xs) S\<rparr>"
proof -
  define b where "b = nat (k - 1) * S"
  define bottom where "bottom = (k - 1) * int S"
  have bi: "bottom = int b" using k by (simp add: b_def bottom_def)
  have "bottom \<le> (ceil_pages (length xs) S - 1) * int S"
    unfolding bottom_def using k by (intro mult_right_mono) simp_all
  also have "\<dots> < max 1 (int (length xs))" using S by (rule ceil_pages_bounds)
  finally have lt: "int b < max 1 (int (length xs))" by (simp add: bi)
  then have le: "b \<le> length xs" by linarith
  have slice: "take (nat (if bottom + int S \<ge> int (length xs) then int (length xs)
                           else bottom + int S) - nat bottom) (drop (nat bottom) xs)
                 = take S (drop b xs)"
  proof (cases "int b + int S \<ge> int (length xs)")
    case True
    then have "length (drop b xs) \<le> S" by simp
    with True le show ?thesis by (simp add: bi)
  next
    case False
    then show ?thesis by (simp add: bi nat_add_distrib)
  qed
  have "page_of \<lparr>object_list = xs, per_page = S\<rparr> k =
      Inr \<lparr>page_object_list =
             take (nat (if bottom + int S \<ge> int (length xs) then int (length xs)
                        else bottom + int S) - nat bottom) (drop (nat bottom) xs),
           page_number = k, page_num_pages = ceil_pages (length xs) S\<rparr>"
    using S k by (simp add: page_of_def num_pages_eq Let_def count_def bottom_def)
  then show ?thesis by (simp only: slice b_def)
qed

lemma page_length:
  assumes S: "0 < S" and k: "1 \<le> k" "k \<le> ceil_pages (length xs) S"
  shows "int (length (take S (drop (nat (k - 1) * S) xs))) =
           min (int S) (int (length xs) - (k - 1) * int S)"
proof -
  define b where "b = nat (k - 1) * S"
  define bottom where "bottom = (k - 1) * int S"
  have bi: "bottom = int b" using k by (simp add: b_def bottom_def)
  have "bottom \<le> (ceil_pages (length xs) S - 1) * int S"
    unfolding bottom_def using k by (intro mult_right_mono) simp_all
  also have "\<dots> < max 1 (int (length xs))" using S by (rule ceil_pages_bounds)
  finally have "int b < max 1 (int (length xs))" by (simp add: bi)
  then have le: "b \<le> length xs" by linarith
  have "length (take S (drop b xs)) = min S (length xs - b)" by simp
  also have "int \<dots> = min (int S) (int (length xs) - int b)" using le by linarith
  finally have "int (length (take S (drop b xs))) = min (int S) (int (length xs) - bottom)"
    by (simp only: bi)
  then show ?thesis by (simp only: b_def bottom_def)
qed

lemma resolved_number_range:
  "1 \<le> np \<Longrightarrow> 1 \<le> resolved_number to_int number np \<and> resolved_number to_int number np \<le> np"
  by (simp add: resolved_number_def split: option.splits)

lemma get_page_eq:
  assumes S: "0 < S"
  shows "get_page to_int \<lparr>object_list = xs, per_page = S\<rparr> number =
           page_of \<lparr>object_list = xs, per_page = S\<rparr>
             (resolved_number to_int number (ceil_pages (length xs) S))"
  using S ceil_pages_bounds(1) [OF S, of "length xs"]
  by (auto simp: get_page_def validate_number_def resolved_number_def num_pages_eq
      split: option.splits)


text \<open>
  C4, as the code has it. For a positive page size \<open>S\<close> and \<open>N\<close> items, \<open>paginate\<close>
  never raises: it returns a page. The number of pages is the least \<open>np \<ge> 1\<close> with
  \<open>max 1 N \<le> np * S\<close>. A page number that is missing or is not an integer gives the
  first page; an integer within \<open>1 .. np\<close> gives that page; every other integer,
  below \<open>1\<close> as well as above \<open>np\<close>, gives the last page. Page \<open>k\<close> holds the items
  from position \<open>(k - 1) * S\<close> on, \<open>min S (N - (k - 1) * S)\<close> of them.
\<close>

theorem paginate_page:
  assumes "0 < S"
  shows "\<exists>pg. paginate to_int xs req S = Inr pg
      \<and> 1 \<le> page_num_pages pg
      \<and> (page_num_pages pg - 1) * int S < max 1 (int (length xs))
      \<and> max 1 (int (length xs)) \<le> page_num_pages pg * int S
      \<and> page_number pg =
          (case querydict_get (request_GET req) ''page'' of
             None \<Rightarrow> 1
           | Some s \<Rightarrow>
               (case to_int s of
                  None \<Rightarrow> 1
                | Some n \<Rightarrow> if 1 \<le> n \<and> n \<le> page_num_pages pg then n
                            else page_num_pages pg))
      \<and> page_object_list pg = take S (drop (nat (page_number pg - 1) * S) xs)
      \<and> int (length (page_object_list pg)) =
          min (int S) (int (length xs) - (page_number pg - 1) * int S)"
proof -
  define np where "np = ceil_pages (length xs) S"
  define k where "k = resolved_number to_int (querydict_get (request_GET req) ''page'') np"
  define pg where "pg = \<lparr>page_object_list = take S (drop (nat (k - 1) * S) xs),
                          page_number = k, page_num_pages = np\<rparr>"
  have np: "1 \<le> np" "(np - 1) * int S < max 1 (int (length xs))"
    "max 1 (int (length xs)) \<le> np * int S"
    unfolding np_def using assms by (rule ceil_pages_bounds)+
  have k: "1 \<le> k" "k \<le> np"
    using resolved_number_range [OF np(1)] by (simp_all add: k_def)
  have "paginate to_int xs req S = Inr pg"
    unfolding paginate_def get_page_eq [OF assms] pg_def k_def np_def
    using k assms by (intro page_of_valid) (simp_all add: k_def np_def)
  moreover have "int (length (page_object_list pg)) =
      min (int S) (int (length xs) - (page_number pg - 1) * int S)"
    using page_length [OF assms, of k xs] k by (simp add: pg_def np_def)
  moreover have "page_number pg =
      (case querydict_get (request_GET req) ''page'' of
         None \<Rightarrow> 1
       | Some s \<Rightarrow>
           (case to_int s of
              None \<Rightarrow> 1
            | Some n \<Rightarrow> if 1 \<le> n \<and> n \<le> page_num_pages pg then n else page_num_pages pg))"
    by (simp add: pg_def k_def resolved_number_def split: option.splits)
  ultimately show ?thesis using np by (intro exI [of _ pg]) (simp add: pg_def)
qed

theorem paginate_page_witness:
  "(0::nat) < 2
   \<and> paginate decimal_int five_items (anonymous_get ''/'' [(''page'', ''3'')]) 2 =
       Inr \<lparr>page_object_list = [5], page_number = 3, page_num_pages = 3\<rparr>
   \<and> paginate decimal_int five_items (anonymous_get ''/'' [(''page'', ''9'')]) 2 =
       Inr \<lparr>page_object_list = [5], page_number = 3, page_num_pages = 3\<rparr>
   \<and> paginate decimal_int five_items (anonymous_get ''/'' [(''page'', ''two'')]) 2 =
       Inr \<lparr>page_object_list = [1, 2], page_number = 1, page_num_pages = 3\<rparr>
   \<and> paginate decimal_int five_items (anonymous_get ''/'' []) 2 =
       Inr \<lparr>page_object_list = [1, 2], page_number = 1, page_num_pages = 3\<rparr>"
proof -
  let ?req = "anonymous_get ''/'' [(''page'', ''3'')]"
  from paginate_page [of 2 decimal_int five_items ?req]
  obtain pg where pg: "paginate decimal_int five_items ?req 2 = Inr pg"
    and lo: "(page_num_pages pg - 1) * 2 < max 1 (int (length five_items))"
    and hi: "max 1 (int (length five_items)) \<le> page_num_pages pg * 2"
    and n: "page_number pg =
          (case querydict_get (request_GET ?req) ''page'' of
             None \<Rightarrow> 1
           | Some s \<Rightarrow>
               (case decimal_int s of
                  None \<Rightarrow> 1
                | Some n \<Rightarrow> if 1 \<le> n \<and> n \<le> page_num_pages pg then n
                            else page_num_pages pg))"
    and l: "page_object_list pg = take 2 (drop (nat (page_number pg - 1) * 2) five_items)"
    by auto
  from lo hi have np: "page_num_pages pg = 3" by (simp add: five_items_def)
  with n have k: "page_number pg = 3"
    by (simp add: anonymous_get_def querydict_get_def decimal_int_def decimal_digits_def)
  with l have "page_object_list pg = [5]" by (simp add: five_items_def)
  with np k have "pg = \<lparr>page_object_list = [5], page_number = 3, page_num_pages = 3\<rparr>"
    by (cases pg) simp
  with pg show ?thesis
    by (simp add: page_defs anonymous_get_def five_items_def)
qed

text \<open>
  C4 as the specification states it fails below the range: with five items on pages of
  two, the page number \<open>0\<close> is nearest to the first page, and \<open>paginate\<close> returns the
  last page, the third.
\<close>

theorem last_page_below_range_counterexample:
  "paginate decimal_int five_items (anonymous_get ''/'' [(''page'', ''0'')]) 2 =
       Inr \<lparr>page_object_list = [5], page_number = 3, page_num_pages = 3\<rparr>
   \<and> nearest_boundary_page 0 3 = 1"
  by (simp add: page_defs anonymous_get_def five_items_def nearest_boundary_page_def)

section \<open>Properties of the mutation views\<close>

text \<open>
  C6, as the code has it. The post, and on the comment routes the comment filed under it,
  exist, and the requester is not the author of the entity. Then no handler changes the
  store. An authenticated requester is redirected to the detail view of the post by all
  four routes (post edit, post delete, comment edit, comment delete). A requester who is
  not authenticated is redirected to the login page by the post edit and the post delete
  route.
\<close>

theorem non_author_mutation_rejected:
  "(get_object_or_404 (db_posts d) (\<lambda>p. post_pk p = post_id) = Some p
      \<and> \<not> user_eq (request_user req) (post_author p)
    \<longrightarrow> PostUpdateView pfc d req post_id =
          (if is_authenticated (request_user req) then Redirect (To_post_detail (post_pk p))
           else Redirect (To_login (request_path req)), d)
        \<and> delete_post pfc d req post_id =
          (if is_authenticated (request_user req) then Redirect (To_post_detail (post_pk p))
           else Redirect (To_login (request_path req)), d))
   \<and> (get_object_or_404 (db_posts d) (\<lambda>p. post_pk p = post_id) = Some p
      \<and> get_object_or_404 (db_comments d)
           (\<lambda>c. comment_pk c = comment_id \<and> comment_post c = post_pk p) = Some c
      \<and> \<not> user_eq (request_user req) (comment_author c)
    \<longrightarrow> snd (edit_comment cfc d req post_id comment_id) = d
        \<and> (is_authenticated (request_user req)
            \<longrightarrow> fst (edit_comment cfc d req post_id comment_id) =
                  Redirect (To_post_detail (post_pk p))))"
  by (simp add: PostUpdateView_def AuthorRequiredMixin_dispatch_def delete_post_def
      delete_post_view_def login_required_def edit_comment_def)


theorem non_author_mutation_rejected_witness:
  "delete_post post_form blog (user_request bob POST ''/posts/1/delete/'' []) 1 =
     (Redirect (To_post_detail 1), blog)
   \<and> PostUpdateView post_form blog
       (user_request bob POST ''/posts/1/edit/'' [(''title'', ''Roma''), (''text'', ''x'')]) 1 =
     (Redirect (To_post_detail 1), blog)
   \<and> edit_comment comment_form blog
       (user_request alice POST ''/posts/1/comment/1/delete_comment/'' []) 1 1 =
     (Redirect (To_post_detail 1), blog)
   \<and> edit_comment comment_form blog
       (user_request alice POST ''/posts/1/comment/1/edit_comment/'' [(''text'', ''mine'')]) 1 1 =
     (Redirect (To_post_detail 1), blog)
   \<and> delete_post post_form blog (anonymous_post ''/posts/1/delete/'' []) 1 =
     (Redirect (To_login ''/posts/1/delete/''), blog)
   \<and> snd (delete_post post_form blog (user_request alice POST ''/posts/1/delete/'' []) 1) \<noteq> blog
   \<and> snd (edit_comment comment_form blog
       (user_request bob POST ''/posts/1/comment/1/edit_comment/'' [(''text'', ''mine'')]) 1 1)
      \<noteq> blog"
proof -
  let ?del = "user_request bob POST ''/posts/1/delete/'' []"
  let ?edit = "user_request bob POST ''/posts/1/edit/'' [(''title'', ''Roma''), (''text'', ''x'')]"
  let ?cdel = "user_request alice POST ''/posts/1/comment/1/delete_comment/'' []"
  let ?cedit = "user_request alice POST ''/posts/1/comment/1/edit_comment/'' [(''text'', ''mine'')]"
  let ?anon = "anonymous_post ''/posts/1/delete/'' []"
  have p: "get_object_or_404 (db_posts blog) (\<lambda>p. post_pk p = 1) = Some post1"
    by (simp add: request_defs blog_defs)
  have c: "get_object_or_404 (db_comments blog)
      (\<lambda>c. comment_pk c = 1 \<and> comment_post c = post_pk post1) = Some comment1"
    by (simp add: request_defs blog_defs)
  have na: "\<not> user_eq (request_user ?del) (post_author post1)"
    "\<not> user_eq (request_user ?edit) (post_author post1)"
    "\<not> user_eq (request_user ?anon) (post_author post1)"
    "\<not> user_eq (request_user ?cdel) (comment_author comment1)"
    "\<not> user_eq (request_user ?cedit) (comment_author comment1)"
    by (simp_all add: request_defs blog_defs anonymous_post_def)
  have au: "is_authenticated (request_user ?del)" "is_authenticated (request_user ?edit)"
    "is_authenticated (request_user ?cdel)" "is_authenticated (request_user ?cedit)"
    "\<not> is_authenticated (request_user ?anon)"
    by (simp_all add: request_defs anonymous_post_def)
  have pk: "post_pk post1 = 1" by (simp add: post1_def)
  have path: "request_path ?anon = ''/posts/1/delete/''" by (simp add: anonymous_post_def)
  note rej = non_author_mutation_rejected [where d = blog and post_id = 1 and p = post1
      and comment_id = 1 and c = comment1 and pfc = post_form and cfc = comment_form]
  have 1: "delete_post post_form blog ?del 1 = (Redirect (To_post_detail 1), blog)"
    using rej [where req = ?del] p na(1) au(1) pk by simp
  have 2: "PostUpdateView post_form blog ?edit 1 = (Redirect (To_post_detail 1), blog)"
    using rej [where req = ?edit] p na(2) au(2) pk by simp
  have 3: "edit_comment comment_form blog ?cdel 1 1 = (Redirect (To_post_detail 1), blog)"
    using rej [where req = ?cdel] p c na(4) au(3) pk by (simp add: prod_eq_iff)
  have 4: "edit_comment comment_form blog ?cedit 1 1 = (Redirect (To_post_detail 1), blog)"
    using rej [where req = ?cedit] p c na(5) au(4) pk by (simp add: prod_eq_iff)
  have 5: "delete_post post_form blog ?anon 1 = (Redirect (To_login ''/posts/1/delete/''), blog)"
    using rej [where req = ?anon] p na(3) au(5) path by simp
  have 6: "snd (delete_post post_form blog (user_request alice POST ''/posts/1/delete/'' []) 1)
      \<noteq> blog"
    by (simp add: view_defs request_defs blog_defs)
  have 7: "snd (edit_comment comment_form blog
       (user_request bob POST ''/posts/1/comment/1/edit_comment/'' [(''text'', ''mine'')]) 1 1)
      \<noteq> blog"
    by (simp add: view_defs request_defs form_defs blog_defs)
  from 1 2 3 4 5 6 7 show ?thesis by simp
qed

text \<open>
  C6 as the specification states it fails for a requester who is not authenticated: the
  anonymous user is not the author of the first post, and the delete route answers with
  a redirect to the login page, not to the detail view of the post.
\<close>

theorem anonymous_post_delete_counterexample:
  "post_author post1 = 1 \<and> \<not> user_eq AnonymousUser 1
   \<and> request_user (anonymous_post ''/posts/1/delete/'' []) = AnonymousUser
   \<and> delete_post post_form blog (anonymous_post ''/posts/1/delete/'' []) 1 =
       (Redirect (To_login ''/posts/1/delete/''), blog)
   \<and> Redirect (To_login ''/posts/1/delete/'') \<noteq> Redirect (To_post_detail 1)"
  by (simp add: view_defs request_defs form_defs blog_defs)

text \<open>
  C2 at a failing input. Carol has staff status and is not the author of the first post.
  Her submission to the delete route is answered with a redirect to the detail view,
  and the post is still in the store: \<open>delete_post\<close> tests the author only, while its
  own documentation lets staff delete as well.
\<close>

theorem staff_delete_redirected:
  "is_staff carol \<and> post_author post1 \<noteq> user_pk carol
   \<and> delete_post post_form blog (user_request carol POST ''/posts/1/delete/'' []) 1 =
       (Redirect (To_post_detail 1), blog)
   \<and> post1 \<in> set (db_posts blog)"
  by (simp add: view_defs request_defs form_defs blog_defs)

text \<open>
  C7 at a failing input. \<open>edit_comment\<close> is the one mutation view without
  \<open>login_required\<close>: an anonymous requester of the comment edit or delete route is
  redirected to the detail view of the post by the author check (and gets not-found for
  a comment that does not exist), where the delete route of a post sends the same
  requester to the login page.
\<close>

theorem edit_comment_anonymous_not_sent_to_login:
  "edit_comment comment_form blog
      (anonymous_get ''/posts/1/comment/1/edit_comment/'' []) 1 1 =
     (Redirect (To_post_detail 1), blog)
   \<and> edit_comment comment_form blog
      (anonymous_post ''/posts/1/comment/1/delete_comment/'' []) 1 1 =
     (Redirect (To_post_detail 1), blog)
   \<and> edit_comment comment_form blog
      (anonymous_get ''/posts/1/comment/9/edit_comment/'' []) 1 9 = (Http404, blog)
   \<and> delete_post post_form blog (anonymous_get ''/posts/1/delete/'' []) 1 =
     (Redirect (To_login ''/posts/1/delete/''), blog)"
  by (simp add: view_defs request_defs form_defs blog_defs)

text \<open>
  C8 at a failing input. Alice submits the profile form with an empty user name, which
  the validation rejects. \<open>edit_profile\<close> persists nothing and does not redirect, but it
  renders a fresh unbound form: the submitted values and the field errors are gone. The
  comment edit view, on a submission that fails validation, renders the bound form with
  its errors.
\<close>

theorem edit_profile_drops_errors:
  "field_errors profile_form blog alice [(''username'', ''''), (''first_name'', ''Al'')] =
     [(''username'', ''This field is required.'')]
   \<and> edit_profile profile_form blog
      (user_request alice POST ''/profile/edit_profile/''
         [(''username'', ''''), (''first_name'', ''Al'')]) =
     (Render ''blog/user.html'' (Form_context \<lparr>form_data = None, form_errors = []\<rparr>), blog)
   \<and> edit_comment comment_form blog
      (user_request bob POST ''/posts/1/comment/1/edit_comment/'' [(''text'', '''')]) 1 1 =
     (Render ''blog/comment.html''
        (Comment_form_context
           \<lparr>form_data = Some [(''text'', '''')],
            form_errors = [(''text'', ''This field is required.'')]\<rparr> comment1), blog)"
  by (simp add: view_defs request_defs form_defs blog_defs)

end
